theory Spec2Isabelle
  imports Main "HOL-Library.Sublist"
begin

section \<open>JavaScript strings\<close>

text \<open>
  A JavaScript string is a sequence of UTF-16 code units; every character of the Korean
  templates lies in the Basic Multilingual Plane, so it is one code unit, written here
  as its code point in hexadecimal. ASCII text is written as an Isabelle string and
  converted by \<open>ascii\<close>.
\<close>

type_synonym jsstring = "nat list"

definition ascii :: "string \<Rightarrow> jsstring" where
  "ascii s = map of_char s"

text \<open>\<open>Array.prototype.join\<close> on an array of strings.\<close>

fun join_js :: "jsstring \<Rightarrow> jsstring list \<Rightarrow> jsstring" where
  "join_js sep [] = []"
| "join_js sep [x] = x"
| "join_js sep (x # y # ys) = x @ sep @ join_js sep (y # ys)"

text \<open>\<open>String.prototype.includes\<close>: \<open>includes_js text pat\<close> is \<open>text.includes(pat)\<close>.\<close>

fun includes_js :: "jsstring \<Rightarrow> jsstring \<Rightarrow> bool" where
  "includes_js [] pat = (pat = [])"
| "includes_js (c # cs) pat = (prefix pat (c # cs) \<or> includes_js cs pat)"

text \<open>
  A template literal \<open>`${v}`\<close> over a property that holds a string or is absent: an
  absent property reads as \<open>undefined\<close> and is printed as the text "undefined".
  \<open>truthy\<close> is the truth value of such a property in a condition: \<open>undefined\<close> and
  the empty string are falsy, every other string is truthy.
\<close>

definition template_str :: "jsstring option \<Rightarrow> jsstring" where
  "template_str v = (case v of None \<Rightarrow> ascii ''undefined'' | Some s \<Rightarrow> s)"

definition truthy :: "jsstring option \<Rightarrow> bool" where
  "truthy v = (case v of None \<Rightarrow> False | Some s \<Rightarrow> s \<noteq> [])"


fun lines_js :: "jsstring \<Rightarrow> jsstring list" where
  "lines_js [] = [[]]"
| "lines_js (c # cs) =
     (if c = 10 then [] # lines_js cs
      else (case lines_js cs of [] \<Rightarrow> [[c]] | l # ls \<Rightarrow> (c # l) # ls))"

section \<open>config.js\<close>

definition HANDPRINT :: jsstring where "HANDPRINT = ascii ''HANDPRINT''"
definition PORTRAIT :: jsstring where "PORTRAIT = ascii ''PORTRAIT''"
definition OTHER :: jsstring where "OTHER = ascii ''OTHER''"

definition CHILD :: jsstring where "CHILD = ascii ''CHILD''"
definition ANONYMOUS_HELPER :: jsstring where "ANONYMOUS_HELPER = ascii ''ANONYMOUS_HELPER''"
definition NAMED_HELPER :: jsstring where "NAMED_HELPER = ascii ''NAMED_HELPER''"

text \<open>\<open>Object.values(VM_CONFIG.LETTER_TYPES)\<close> and \<open>Object.values(VM_CONFIG.AUTHOR_TYPES)\<close>.\<close>

definition LETTER_TYPES_values :: "jsstring list" where
  "LETTER_TYPES_values = [HANDPRINT, PORTRAIT, OTHER]"

definition AUTHOR_TYPES_values :: "jsstring list" where
  "AUTHOR_TYPES_values = [CHILD, ANONYMOUS_HELPER, NAMED_HELPER]"

text \<open>\<open>VM_CONFIG.TIMING\<close>, in milliseconds.\<close>

definition AUTO_RATING_DELAY :: nat where "AUTO_RATING_DELAY = 1000"
definition AUTO_RATING_RETRY_DELAY :: nat where "AUTO_RATING_RETRY_DELAY = 2000"

section \<open>letter-templates.js\<close>

text \<open>
  The argument \<open>letterData\<close> of the generator is any JavaScript value. The check
  \<open>!letterData || typeof letterData !== 'object'\<close> separates the falsy values
  (\<open>undefined\<close>, \<open>null\<close>, ...), the truthy values that are not objects, and the
  objects. An object is the map from its property names to its property values, which
  are strings (as the JSDoc of \<open>generatePersonalizedLetter\<close> types them); an absent
  property is \<open>None\<close>.
\<close>

datatype letterData =
    JsFalsy
  | JsNonObject
  | JsObject "jsstring \<Rightarrow> jsstring option"

datatype error = Error jsstring | TypeError

record templateConfig =
  artElement :: "jsstring option"
  includeVillageQuestion :: bool
  isSimpleTemplate :: bool

text \<open>
  The instance fields set by the constructor. A flag that an entry of
  \<open>templateConfigs\<close> does not set reads as \<open>undefined\<close>, which is falsy: \<open>False\<close>.
\<close>

record generator =
  templateConfigs :: "jsstring \<Rightarrow> templateConfig option"
  helperStatements :: "jsstring \<Rightarrow> jsstring option"

definition named_helper_statement :: jsstring where
  "named_helper_statement =
     ascii ''*'' @ [0xC774] @ ascii '' '' @ [0xD3B8, 0xC9C0, 0xB97C] @ ascii '' ''
     @ [0xC791, 0xC131, 0xD558, 0xB294, 0xB370] @ ascii '' (''
     @ [0xC790, 0xC6D0, 0xBD09, 0xC0AC, 0xC790] @ ascii ''/'' @ [0xC5C4, 0xB9C8] @ ascii ''/''
     @ [0xC544, 0xBE60] @ ascii ''/'' @ [0xD560, 0xBA38, 0xB2C8] @ ascii ''/'' @ [0xACE0, 0xBAA8]
     @ ascii '' '' @ [0xB4F1] @ ascii '')'' @ [0xC778] @ ascii '' ''
     @ [0xD55C, 0xAE00, 0xB3C5, 0xC74C] @ ascii ''('' @ [0xC601, 0xBB38, 0xBCD1, 0xAE30]
     @ ascii '')'' @ [0xAC00] @ ascii '' '' @ [0xB3C4, 0xC640, 0xC8FC, 0xC168, 0xC5B4, 0xC694]
     @ ascii ''.''"

definition anonymous_helper_statement :: jsstring where
  "anonymous_helper_statement =
     ascii ''*'' @ [0xC774] @ ascii '' '' @ [0xD3B8, 0xC9C0, 0xB294] @ ascii '' ''
     @ [0xD604, 0xC9C0, 0xC0AC, 0xC5C5, 0xC7A5] @ ascii '' ''
     @ [0xC790, 0xC6D0, 0xBD09, 0xC0AC, 0xC790] @ ascii '' '' @ [0xD639, 0xC740] @ ascii '' ''
     @ [0xAC00, 0xC871, 0xC758] @ ascii '' '' @ [0xB3C4, 0xC6C0, 0xC73C, 0xB85C] @ ascii '' ''
     @ [0xC791, 0xC131, 0xB418, 0xC5C8, 0xC5B4, 0xC694] @ ascii ''.''"

definition LetterTemplateGenerator :: generator where
  "LetterTemplateGenerator =
     \<lparr> templateConfigs =
         [ HANDPRINT \<mapsto> \<lparr> artElement = Some [0xC190, 0xB3C4, 0xC7A5],
                          includeVillageQuestion = False, isSimpleTemplate = False \<rparr>,
           PORTRAIT \<mapsto> \<lparr> artElement = Some [0xC790, 0xD654, 0xC0C1],
                         includeVillageQuestion = True, isSimpleTemplate = False \<rparr>,
           OTHER \<mapsto> \<lparr> artElement = None,
                      includeVillageQuestion = False, isSimpleTemplate = True \<rparr> ],
       helperStatements =
         [ NAMED_HELPER \<mapsto> named_helper_statement,
           ANONYMOUS_HELPER \<mapsto> anonymous_helper_statement,
           CHILD \<mapsto> [] ] \<rparr>"

record validation =
  isValid :: bool
  errors :: "jsstring list"

definition requiredFields :: "jsstring list" where
  "requiredFields = [ascii ''sponsorName'', ascii ''childKoreanName'', ascii ''childEnglishName'']"

definition validateInputs :: "jsstring \<Rightarrow> jsstring \<Rightarrow> letterData \<Rightarrow> validation" where
  "validateInputs letterType authorType letterData =
     (let errors1 =
            (if letterType \<notin> set LETTER_TYPES_values
             then [ascii ''Invalid letter type: '' @ letterType] else []);
          errors2 = errors1 @
            (if authorType \<notin> set AUTHOR_TYPES_values
             then [ascii ''Invalid author type: '' @ authorType] else []);
          errors3 = errors2 @
            (case letterData of
               JsFalsy \<Rightarrow> [ascii ''Letter data is required and must be an object'']
             | JsNonObject \<Rightarrow> [ascii ''Letter data is required and must be an object'']
             | JsObject d \<Rightarrow>
                 (if letterType \<noteq> OTHER
                  then (let missing = filter (\<lambda>field. \<not> truthy (d field)) requiredFields
                        in if length missing > 0
                           then [ascii ''Missing required fields: ''
                                 @ join_js (ascii '', '') missing]
                           else [])
                  else []))
      in \<lparr> isValid = (length errors3 = 0), errors = errors3 \<rparr>)"

definition signature_line :: "(jsstring \<Rightarrow> jsstring option) \<Rightarrow> jsstring" where
  "signature_line d =
     [0xD6C4, 0xC6D0, 0xC790, 0xB2D8, 0xC758] @ ascii '' '' @ [0xD6C4, 0xC6D0, 0xC544, 0xB3D9]
     @ ascii '', '' @ template_str (d (ascii ''childKoreanName'')) @ ascii ''(''
     @ template_str (d (ascii ''childEnglishName'')) @ ascii '') '' @ [0xC62C, 0xB9BC]"

definition greeting_line :: "(jsstring \<Rightarrow> jsstring option) \<Rightarrow> jsstring" where
  "greeting_line d =
     [0xC0AC, 0xB791, 0xD558, 0xB294] @ ascii '' '' @ template_str (d (ascii ''sponsorName''))
     @ ascii '' '' @ [0xD6C4, 0xC6D0, 0xC790, 0xB2D8, 0xAED8] @ ascii '',''"

definition generateSimpleTemplate ::
  "generator \<Rightarrow> jsstring \<Rightarrow> (jsstring \<Rightarrow> jsstring option) \<Rightarrow> jsstring" where
  "generateSimpleTemplate this authorType d =
     (let helperStatement = helperStatements this authorType;
          parts = [greeting_line d, []];
          parts = (if truthy helperStatement
                   then parts @ [template_str helperStatement, []] else parts);
          parts = parts @ [signature_line d]
      in join_js [10] parts)"

definition village_question :: jsstring where
  "village_question =
     ascii ''- '' @ [0xC6B0, 0xB9AC] @ ascii '' '' @ [0xB9C8, 0xC744, 0xC5D0, 0xC11C] @ ascii '' ''
     @ [0xAC00, 0xC7A5] @ ascii '' '' @ [0xC88B, 0xC544, 0xD558, 0xB294] @ ascii '' ''
     @ [0xAC83, 0xACFC] @ ascii '' '' @ [0xADF8] @ ascii '' '' @ [0xC774, 0xC720] @ ascii '' :''"

definition generateFullTemplate ::
  "generator \<Rightarrow> jsstring \<Rightarrow> jsstring \<Rightarrow> (jsstring \<Rightarrow> jsstring option) \<Rightarrow> error + jsstring"
  where
  "generateFullTemplate this letterType authorType d =
     (case templateConfigs this letterType of
        None \<Rightarrow> Inl TypeError
      | Some config \<Rightarrow>
         (let helperStatement = helperStatements this authorType;
              parts =
                [ greeting_line d,
                  [],
                  [0xC548, 0xB155, 0xD558, 0xC138, 0xC694] @ ascii ''!'',
                  [],
                  [0xC81C] @ ascii '' '' @ [0xC774, 0xB984, 0xC740] @ ascii '' ''
                    @ template_str (d (ascii ''childKoreanName'')) @ ascii ''(''
                    @ template_str (d (ascii ''childEnglishName'')) @ ascii '')''
                    @ [0xC774, 0xC5D0, 0xC694] @ ascii ''. '' @ [0xC6B0, 0xB9AC] @ ascii '' ''
                    @ [0xC11C, 0xB85C] @ ascii '' '' @ [0xC54C, 0xC544, 0xAC00, 0xC694] @ ascii ''!'',
                  [],
                  ascii ''- '' @ [0xC800, 0xC758] @ ascii '' '' @ template_str (artElement config)
                    @ [0xC744] @ ascii '' '' @ [0xADF8, 0xB824] @ ascii '' ''
                    @ [0xBCF4, 0xC558, 0xC5B4, 0xC694] @ ascii ''.'',
                  [],
                  ascii ''- '' @ [0xC81C, 0xAC8C] @ ascii '' '' @ [0xD2B9, 0xBCC4, 0xD55C] @ ascii '' ''
                    @ [0xC0AC, 0xB78C] @ ascii '' :'',
                  [],
                  ascii ''- '' @ [0xC774] @ ascii '' '' @ [0xC0AC, 0xB78C, 0xC774] @ ascii '' ''
                    @ [0xC81C, 0xAC8C] @ ascii '' '' @ [0xD2B9, 0xBCC4, 0xD55C] @ ascii '' ''
                    @ [0xC774, 0xC720] @ ascii '' :'',
                  [],
                  [],
                  ascii ''- '' @ [0xC800, 0xB97C] @ ascii '' '' @ [0xD589, 0xBCF5, 0xD558, 0xAC8C]
                    @ ascii '' '' @ [0xD574, 0xC8FC, 0xB294] @ ascii '' '' @ [0xAC83] @ ascii '' :'',
                  [] ];
              parts = (if includeVillageQuestion config
                       then parts @ [village_question, []] else parts);
              parts = parts @
                [ ascii ''- '' @ [0xD6C4, 0xC6D0, 0xC790, 0xB2D8, 0xAED8] @ ascii '' ''
                    @ [0xAD81, 0xAE08, 0xD55C] @ ascii '' '' @ [0xAC83] @ ascii '' :'',
                  [],
                  [0xC800, 0xB97C] @ ascii '' '' @ [0xD6C4, 0xC6D0, 0xD574] @ ascii '' ''
                    @ [0xC8FC, 0xC154, 0xC11C] @ ascii '' '' @ [0xAC10, 0xC0AC, 0xD574, 0xC694]
                    @ ascii ''.'',
                  [0xD6C4, 0xC6D0, 0xC790, 0xB2D8, 0xC758] @ ascii '' '' @ [0xC18C, 0xC2DD, 0xC744]
                    @ ascii '' '' @ [0xBE68, 0xB9AC] @ ascii '' '' @ [0xB4E3, 0xACE0] @ ascii '' ''
                    @ [0xC2F6, 0xC5B4, 0xC694] @ ascii ''!'',
                  [] ];
              parts = (if truthy helperStatement
                       then parts @ [template_str helperStatement, []] else parts);
              parts = parts @ [signature_line d]
          in Inr (join_js [10] parts)))"

text \<open>
  \<open>generatePersonalizedLetter\<close>: the thrown \<open>Error\<close> is the \<open>Inl\<close> result. Once the
  validation has passed, \<open>letterData\<close> is an object; the other two cases of the
  \<open>case\<close> below are never reached.
\<close>

definition generatePersonalizedLetter ::
  "generator \<Rightarrow> jsstring \<Rightarrow> jsstring \<Rightarrow> letterData \<Rightarrow> error + jsstring" where
  "generatePersonalizedLetter this letterType authorType letterData =
     (let validation = validateInputs letterType authorType letterData
      in if \<not> isValid validation
         then Inl (Error (ascii ''Template generation failed: ''
                          @ join_js (ascii '', '') (errors validation)))
         else (case letterData of
                 JsObject d \<Rightarrow>
                   (if letterType = OTHER
                    then Inr (generateSimpleTemplate this authorType d)
                    else generateFullTemplate this letterType authorType d)
               | _ \<Rightarrow> Inl TypeError))"

section \<open>content.js: the tab-close watcher\<close>

definition TARGET_URL :: jsstring where
  "TARGET_URL = ascii ''https://letter.worldvision.or.kr/mypage/letterlist/letterviewok.do''"

text \<open>The success text that the mutation observer looks for in \<open>document.body.innerText\<close>.\<close>

definition success_text :: jsstring where
  "success_text =
     [0xBC88, 0xC5ED, 0xC644, 0xB8CC] @ ascii '' '' @ [0xB418, 0xC5C8, 0xC2B5, 0xB2C8, 0xB2E4]
     @ ascii ''.''"

text \<open>The success word that the override of \<open>window.alert\<close> looks for in the message.\<close>

definition success_word :: jsstring where
  "success_word = [0xBC88, 0xC5ED, 0xC644, 0xB8CC]"

text \<open>
  What a handler reads from \<open>window\<close> when it runs: \<open>location.href\<close>, whether
  \<open>window.opener && window.opener.chrome && window.opener.chrome.tabs\<close> holds, and
  \<open>window.opener.tabId\<close> (\<open>None\<close> when undefined).
\<close>

record window =
  href :: jsstring
  opener_chrome_tabs :: bool
  opener_tabId :: "nat option"

record message =
  action :: jsstring
  openerTabId :: "nat option"

text \<open>
  The state of the content script: the variable \<open>lastUrl\<close>, whether the
  \<open>MutationObserver\<close> is still connected, whether \<open>VMHelper.initialize\<close> has replaced
  \<open>window.alert\<close> by its override (until then \<open>window.alert\<close> is the function of
  the first line of the script, which does nothing), and the messages passed to
  \<open>chrome.runtime.sendMessage\<close> so far, oldest first.
\<close>

record watcher =
  lastUrl :: jsstring
  observing :: bool
  alertOverride :: bool
  sent :: "message list"

definition sendCloseTab :: "nat option \<Rightarrow> watcher \<Rightarrow> watcher" where
  "sendCloseTab opener w =
     w\<lparr> sent := sent w @ [\<lparr> action = ascii ''closeTab'', openerTabId = opener \<rparr>] \<rparr>"

definition checkUrlAndCloseIfNeeded :: "window \<Rightarrow> watcher \<Rightarrow> watcher" where
  "checkUrlAndCloseIfNeeded win w =
     (if href win = TARGET_URL
      then (let opener =
                  (if opener_chrome_tabs win
                   then (case opener_tabId win of
                           None \<Rightarrow> None
                         | Some t \<Rightarrow> if t = 0 then None else Some t)
                   else None)
            in sendCloseTab opener w)
      else w)"

text \<open>The \<open>beforeunload\<close> listener.\<close>

definition on_beforeunload :: "watcher \<Rightarrow> watcher" where
  "on_beforeunload w = sendCloseTab None w"

text \<open>The callback of \<open>setInterval\<close>, every 500 ms.\<close>

definition on_interval :: "window \<Rightarrow> watcher \<Rightarrow> watcher" where
  "on_interval win w =
     (if href win \<noteq> lastUrl w
      then checkUrlAndCloseIfNeeded win (w\<lparr> lastUrl := href win \<rparr>)
      else w)"

text \<open>
  The callback of the \<open>MutationObserver\<close>; its argument is \<open>document.body.innerText\<close>,
  or \<open>None\<close> when \<open>document.body\<close> is null. \<open>observer.disconnect()\<close> clears
  \<open>observing\<close>.
\<close>

definition observer_callback :: "jsstring option \<Rightarrow> watcher \<Rightarrow> watcher" where
  "observer_callback body w =
     (case body of
        None \<Rightarrow> w
      | Some innerText \<Rightarrow>
          if includes_js innerText success_text
          then (sendCloseTab None w)\<lparr> observing := False \<rparr>
          else w)"

text \<open>
  The override of \<open>window.alert\<close> that \<open>VMHelper.initialize\<close> installs; its argument is
  the message when that is a string, and \<open>None\<close> otherwise. The original alert that it
  calls afterwards is the function that does nothing.
\<close>

definition alert_override :: "jsstring option \<Rightarrow> watcher \<Rightarrow> watcher" where
  "alert_override msg w =
     (case msg of
        None \<Rightarrow> w
      | Some m \<Rightarrow> if includes_js m success_word then sendCloseTab None w else w)"

text \<open>
  The signals that the page delivers to the script after it has been loaded. The timer
  of the \<open>submit\<close> listener calls \<open>checkUrlAndCloseIfNeeded\<close> 100 ms after the form
  was submitted. A disconnected observer is not called back. \<open>Initialized\<close> is the
  moment at which \<open>VMHelper.initialize\<close> installs its override of \<open>window.alert\<close>
  (it does so at most once, behind its guard \<open>isInitialized\<close>); \<open>Alert\<close> is a call of
  \<open>window.alert\<close>.
\<close>

datatype event =
    Popstate window
  | Hashchange window
  | Interval window
  | SubmitTimer window
  | Beforeunload
  | Mutation "jsstring option"
  | Initialized
  | Alert "jsstring option"

fun handle :: "watcher \<Rightarrow> event \<Rightarrow> watcher" where
  "handle w (Popstate win) = checkUrlAndCloseIfNeeded win w"
| "handle w (Hashchange win) = checkUrlAndCloseIfNeeded win w"
| "handle w (Interval win) = on_interval win w"
| "handle w (SubmitTimer win) = checkUrlAndCloseIfNeeded win w"
| "handle w Beforeunload = on_beforeunload w"
| "handle w (Mutation body) = (if observing w then observer_callback body w else w)"
| "handle w Initialized = w\<lparr> alertOverride := True \<rparr>"
| "handle w (Alert msg) = (if alertOverride w then alert_override msg w else w)"

text \<open>The script right after it was loaded at the address \<open>url\<close>.\<close>

definition script_loaded :: "jsstring \<Rightarrow> watcher" where
  "script_loaded url = \<lparr> lastUrl = url, observing = True, alertOverride = False, sent = [] \<rparr>"

definition page_load :: "jsstring \<Rightarrow> event list \<Rightarrow> watcher" where
  "page_load url es = foldl handle (script_loaded url) es"

fun is_mutation :: "event \<Rightarrow> bool" where
  "is_mutation (Mutation body) = True"
| "is_mutation e = False"

text \<open>
  Whether a signal makes the script send a request, and the number of requests that the
  mutations among the signals \<open>es\<close> cause, and that the other signals cause, when the
  signals arrive in this order at the script in the state \<open>w\<close>.
\<close>

definition sends :: "watcher \<Rightarrow> event \<Rightarrow> bool" where
  "sends w e = (length (sent (handle w e)) > length (sent w))"

fun mutation_requests :: "watcher \<Rightarrow> event list \<Rightarrow> nat" where
  "mutation_requests w [] = 0"
| "mutation_requests w (e # es) =
     (if is_mutation e \<and> sends w e then 1 else 0) + mutation_requests (handle w e) es"

fun other_requests :: "watcher \<Rightarrow> event list \<Rightarrow> nat" where
  "other_requests w [] = 0"
| "other_requests w (e # es) =
     (if \<not> is_mutation e \<and> sends w e then 1 else 0) + other_requests (handle w e) es"

section \<open>utils.js and auto-rating.js: the retry controller\<close>

text \<open>An element is seen through its computed style only.\<close>

record computedStyle =
  display :: jsstring
  visibility :: jsstring
  opacity :: jsstring

text \<open>\<open>DOMUtils.isVisible\<close>; \<open>None\<close> is the null element.\<close>

definition isVisible :: "computedStyle option \<Rightarrow> bool" where
  "isVisible element =
     (case element of
        None \<Rightarrow> False
      | Some style \<Rightarrow>
          display style \<noteq> ascii ''none'' \<and> visibility style \<noteq> ascii ''hidden''
          \<and> opacity style \<noteq> ascii ''0'')"

text \<open>
  The host page, over the states \<open>'p\<close> of its document:
  \<open>ratingElement\<close> is \<open>DOMUtils.safeQuerySelector(VM_CONFIG.SELECTORS.RATING_ELEMENT)\<close>
  (null when there is no such element), \<open>elementClick\<close> is what \<open>ratingElement.click()\<close>
  does to the document (\<open>None\<close> when it throws), \<open>elapse ms\<close> is what the page does
  by itself while the script waits for \<open>ms\<close> milliseconds.
\<close>

record 'p hostPage =
  ratingElement :: "'p \<Rightarrow> computedStyle option"
  elementClick :: "'p \<Rightarrow> 'p option"
  elapse :: "nat \<Rightarrow> 'p \<Rightarrow> 'p"

text \<open>What the controller does, in order: the calls of \<open>clickRating\<close>, the clicks, the delays.\<close>

datatype step = Attempt nat | Click | Delay nat

record 'p run =
  document :: 'p
  trace :: "step list"

record manager =
  maxRetries :: nat
  retryDelay :: nat
  initialDelay :: nat

definition AutoRatingManager :: manager where
  "AutoRatingManager =
     \<lparr> maxRetries = 2, retryDelay = AUTO_RATING_RETRY_DELAY, initialDelay = AUTO_RATING_DELAY \<rparr>"

definition delay :: "'p hostPage \<Rightarrow> nat \<Rightarrow> 'p run \<Rightarrow> 'p run" where
  "delay page ms r = r\<lparr> document := elapse page ms (document r), trace := trace r @ [Delay ms] \<rparr>"

definition validateRatingClick :: "'p hostPage \<Rightarrow> 'p run \<Rightarrow> bool" where
  "validateRatingClick page r = (ratingElement page (document r) \<noteq> None)"

text \<open>\<open>clickRating\<close>: an exception of the click is caught and gives \<open>false\<close>.\<close>

definition clickRating :: "'p hostPage \<Rightarrow> nat \<Rightarrow> 'p run \<Rightarrow> bool \<times> 'p run" where
  "clickRating page attemptNumber r0 =
     (let r = r0\<lparr> trace := trace r0 @ [Attempt attemptNumber] \<rparr>
      in case ratingElement page (document r) of
           None \<Rightarrow> (False, r)
         | Some element \<Rightarrow>
             if \<not> isVisible (Some element) then (False, r)
             else (let r = r\<lparr> trace := trace r @ [Click] \<rparr>
                   in case elementClick page (document r) of
                        None \<Rightarrow> (False, r)
                      | Some p \<Rightarrow>
                          (let r = delay page 500 (r\<lparr> document := p \<rparr>)
                           in (validateRatingClick page r, r))))"

text \<open>The \<open>for\<close> loop of \<open>clickRatingWithRetry\<close>, from the value \<open>attempt\<close> of its counter.\<close>

function retry_loop :: "'p hostPage \<Rightarrow> manager \<Rightarrow> nat \<Rightarrow> 'p run \<Rightarrow> bool \<times> 'p run" where
  "retry_loop page this attempt r =
     (if attempt \<le> maxRetries this
      then (case clickRating page attempt r of
              (success, r1) \<Rightarrow>
                if success then (True, r1)
                else retry_loop page this (attempt + 1)
                       (if attempt < maxRetries this then delay page (retryDelay this) r1 else r1))
      else (False, r))"
  by pat_completeness auto
termination
  by (relation "measure (\<lambda>(page, this, attempt, r). maxRetries this + 1 - attempt)") auto

declare retry_loop.simps [simp del]

definition clickRatingWithRetry :: "'p hostPage \<Rightarrow> manager \<Rightarrow> 'p run \<Rightarrow> bool \<times> 'p run" where
  "clickRatingWithRetry page this r = retry_loop page this 0 r"

definition handleAutoRating :: "'p hostPage \<Rightarrow> manager \<Rightarrow> 'p run \<Rightarrow> bool \<times> 'p run" where
  "handleAutoRating page this r = clickRatingWithRetry page this (delay page (initialDelay this) r)"

fun is_attempt :: "step \<Rightarrow> bool" where
  "is_attempt (Attempt k) = True"
| "is_attempt s = False"

text \<open>A page whose rating control is there and visible until it is clicked, and gone after.\<close>

definition shown :: computedStyle where
  "shown = \<lparr> display = ascii ''inline'', visibility = ascii ''visible'', opacity = ascii ''1'' \<rparr>"

definition vanishing_page :: "bool hostPage" where
  "vanishing_page =
     \<lparr> ratingElement = (\<lambda>present. if present then Some shown else None),
       elementClick = (\<lambda>present. Some False),
       elapse = (\<lambda>ms present. present) \<rparr>"

text \<open>A page without the rating control, and one where it stays.\<close>

definition empty_page :: "unit hostPage" where
  "empty_page =
     \<lparr> ratingElement = (\<lambda>u. None), elementClick = (\<lambda>u. Some u), elapse = (\<lambda>ms u. u) \<rparr>"

definition steady_page :: "unit hostPage" where
  "steady_page =
     \<lparr> ratingElement = (\<lambda>u. Some shown), elementClick = (\<lambda>u. Some u), elapse = (\<lambda>ms u. u) \<rparr>"

section \<open>background.js: opening a tab\<close>

text \<open>\<open>isTargetDomain\<close>; \<open>None\<close> is an undefined URL.\<close>

definition isTargetDomain :: "jsstring option \<Rightarrow> bool" where
  "isTargetDomain url =
     (if \<not> truthy url then False
      else includes_js (template_str url) (ascii ''letter.worldvision.or.kr'')
           \<and> includes_js (template_str url) (ascii ''letterview.do''))"

text \<open>
  The browser: its tabs with their addresses, the identifier of the next tab, and the
  message of the error with which \<open>chrome.tabs.create\<close> rejects, if it does.
\<close>

record browser =
  tabs :: "(nat \<times> jsstring) list"
  nextTabId :: nat
  createError :: "jsstring option"

definition tabs_create :: "browser \<Rightarrow> jsstring \<Rightarrow> error + nat \<times> browser" where
  "tabs_create b u =
     (case createError b of
        Some m \<Rightarrow> Inl (Error m)
      | None \<Rightarrow> Inr (nextTabId b, b\<lparr> tabs := tabs b @ [(nextTabId b, u)],
                                    nextTabId := nextTabId b + 1 \<rparr>))"

text \<open>The argument of \<open>sendResponse\<close>.\<close>

datatype response =
    Success nat jsstring
  | Failure jsstring

definition error_message :: "error \<Rightarrow> jsstring" where
  "error_message e =
     (case e of Error m \<Rightarrow> m | TypeError \<Rightarrow> ascii ''TypeError'')"

text \<open>
  \<open>handleOpenInNewTab\<close>, applied to \<open>message.url\<close> and to the browser: it returns the
  argument that it passes to \<open>sendResponse\<close> and the browser after the call. Every error
  thrown inside is caught and answered with a failure.
\<close>

definition handleOpenInNewTab :: "jsstring option \<Rightarrow> browser \<Rightarrow> response \<times> browser" where
  "handleOpenInNewTab url b =
     (if \<not> truthy url
      then (Failure (ascii ''URL is required for openInNewTab action''), b)
      else if \<not> isTargetDomain url
      then (Failure (ascii ''URL is not from allowed domain''), b)
      else (case tabs_create b (template_str url) of
              Inl e \<Rightarrow> (Failure (error_message e), b)
            | Inr (tabId, b') \<Rightarrow> (Success tabId (ascii ''Tab created successfully''), b')))"

text \<open>
  The host name of an address, to say what "belongs to the domain" means: the text
  between \<open>://\<close> and the next \<open>/\<close>, \<open>?\<close>, \<open>#\<close> or \<open>:\<close>.
\<close>

fun after_scheme :: "jsstring \<Rightarrow> jsstring option" where
  "after_scheme [] = None"
| "after_scheme (c # cs) =
     (if prefix (ascii ''://'') (c # cs) then Some (drop 3 (c # cs)) else after_scheme cs)"

definition hostname :: "jsstring \<Rightarrow> jsstring option" where
  "hostname u =
     (case after_scheme u of
        None \<Rightarrow> None
      | Some rest \<Rightarrow> Some (takeWhile (\<lambda>c. c \<notin> set (ascii ''/?#:'')) rest))"

definition allowed_domain :: jsstring where
  "allowed_domain = ascii ''letter.worldvision.or.kr''"

section \<open>Example inputs\<close>

text \<open>The sponsor Hong Gildong and the child Kim Minsu, and the signature line of that child.\<close>

definition minsu_data :: "jsstring \<Rightarrow> jsstring option" where
  "minsu_data =
     [ ascii ''sponsorName'' \<mapsto> [0xD64D, 0xAE38, 0xB3D9],
       ascii ''childKoreanName'' \<mapsto> [0xAE40, 0xBBFC, 0xC218],
       ascii ''childEnglishName'' \<mapsto> ascii ''Minsu Kim'' ]"

definition minsu_signature :: jsstring where
  "minsu_signature =
     [0xD6C4, 0xC6D0, 0xC790, 0xB2D8, 0xC758] @ ascii '' '' @ [0xD6C4, 0xC6D0, 0xC544, 0xB3D9]
     @ ascii '', '' @ [0xAE40, 0xBBFC, 0xC218] @ ascii ''(Minsu Kim) '' @ [0xC62C, 0xB9BC]"

text \<open>Data with an empty sponsor name and no other property; data whose three names are
  empty; data whose three names are white space only: one space, two spaces, one tab.\<close>

definition only_sponsor_empty :: "jsstring \<Rightarrow> jsstring option" where
  "only_sponsor_empty = [ascii ''sponsorName'' \<mapsto> []]"

definition empty_names :: "jsstring \<Rightarrow> jsstring option" where
  "empty_names =
     [ ascii ''sponsorName'' \<mapsto> [], ascii ''childKoreanName'' \<mapsto> [],
       ascii ''childEnglishName'' \<mapsto> [] ]"

definition blank_names :: "jsstring \<Rightarrow> jsstring option" where
  "blank_names =
     [ ascii ''sponsorName'' \<mapsto> ascii '' '', ascii ''childKoreanName'' \<mapsto> ascii ''  '',
       ascii ''childEnglishName'' \<mapsto> [9] ]"



text \<open>The address of the letter page, on which the content script runs.\<close>

definition letterview_url :: jsstring where
  "letterview_url = ascii ''https://letter.worldvision.or.kr/mypage/letterlist/letterview.do''"

text \<open>An address on another host whose path holds the two texts that \<open>isTargetDomain\<close>
  looks for, and a browser without tabs.\<close>

definition lookalike_url :: jsstring where
  "lookalike_url = ascii ''https://evil.example/letter.worldvision.or.kr/letterview.do''"

definition fresh_browser :: browser where
  "fresh_browser = \<lparr> tabs = [], nextTabId = 1, createError = None \<rparr>"

section \<open>Strings: joining, searching, counting, lines\<close>

lemma includes_js_sublist: "includes_js s pat \<longleftrightarrow> sublist pat s"
  by (induction s) (simp_all add: sublist_Cons_right)

lemma sublist_trans: "sublist xs ys \<Longrightarrow> sublist ys zs \<Longrightarrow> sublist xs zs"
  by (rule sublist_order.order_trans)

lemma sublist_join_js: "x \<in> set xs \<Longrightarrow> sublist x (join_js sep xs)"
proof (induction sep xs rule: join_js.induct)
  case (1 sep)
  then show ?case by simp
next
  case (2 sep y)
  then show ?case by simp
next
  case (3 sep y z zs)
  show ?case
  proof (cases "x = y")
    case True
    then show ?thesis by simp
  next
    case False
    with 3 have "sublist x (join_js sep (z # zs))" by simp
    then have "sublist x ((y @ sep) @ join_js sep (z # zs))"
      by (meson sublist_append)
    then show ?thesis by simp
  qed
qed

lemma join_js_append:
  "xs \<noteq> [] \<Longrightarrow> ys \<noteq> [] \<Longrightarrow> join_js sep (xs @ ys) = join_js sep xs @ sep @ join_js sep ys"
proof (induction sep xs rule: join_js.induct)
  case (2 sep x)
  then show ?case by (cases ys) simp_all
qed simp_all









section \<open>Validation of the generator's inputs\<close>

lemmas config_defs =
  HANDPRINT_def PORTRAIT_def OTHER_def CHILD_def ANONYMOUS_HELPER_def NAMED_HELPER_def
  LETTER_TYPES_values_def AUTHOR_TYPES_values_def

lemma isValid_iff:
  "isValid (validateInputs lt at ld) \<longleftrightarrow>
     lt \<in> set LETTER_TYPES_values \<and> at \<in> set AUTHOR_TYPES_values
     \<and> (\<exists>d. ld = JsObject d \<and> (lt \<noteq> OTHER \<longrightarrow> list_all (\<lambda>f. truthy (d f)) requiredFields))"
  by (cases ld) (auto simp: validateInputs_def Let_def list_all_iff filter_empty_conv)

lemma full_config:
  "lt \<in> set LETTER_TYPES_values \<Longrightarrow> lt \<noteq> OTHER \<Longrightarrow>
   \<exists>config. templateConfigs LetterTemplateGenerator lt = Some config"
  by (auto simp: LetterTemplateGenerator_def LETTER_TYPES_values_def)

lemma generate_valid:
  assumes "isValid (validateInputs lt at (JsObject d))"
  shows "\<exists>letter. generatePersonalizedLetter LetterTemplateGenerator lt at (JsObject d) = Inr letter"
proof (cases "lt = OTHER")
  case True
  with assms show ?thesis by (simp add: generatePersonalizedLetter_def)
next
  case False
  from assms have "lt \<in> set LETTER_TYPES_values" by (simp add: isValid_iff)
  with False obtain config where "templateConfigs LetterTemplateGenerator lt = Some config"
    using full_config by blast
  with assms False show ?thesis
    by (simp add: generatePersonalizedLetter_def generateFullTemplate_def Let_def)
qed

lemma generate_invalid:
  "\<not> isValid (validateInputs lt at ld) \<Longrightarrow>
   generatePersonalizedLetter this lt at ld =
     Inl (Error (ascii ''Template generation failed: ''
                 @ join_js (ascii '', '') (errors (validateInputs lt at ld))))"
  by (simp add: generatePersonalizedLetter_def)

lemma generate_isl_iff:
  "isl (generatePersonalizedLetter LetterTemplateGenerator lt at ld)
   \<longleftrightarrow> \<not> isValid (validateInputs lt at ld)"
proof (cases "isValid (validateInputs lt at ld)")
  case True
  then obtain d where "ld = JsObject d" by (auto simp: isValid_iff)
  with True show ?thesis using generate_valid [of lt at d] by auto
next
  case False
  then show ?thesis by (simp add: generate_invalid)
qed

lemma includes_message:
  "e \<in> set es \<Longrightarrow> sublist x e \<Longrightarrow> includes_js (pre @ join_js sep es) x"
proof -
  assume "e \<in> set es" and x: "sublist x e"
  then have "sublist e (join_js sep es)" by (simp add: sublist_join_js)
  with x have "sublist x (join_js sep es)" by (rule sublist_trans)
  then have "sublist x (pre @ join_js sep es)" by (meson sublist_append)
  then show ?thesis by (simp add: includes_js_sublist)
qed

lemma errors_letter_type:
  "lt \<notin> set LETTER_TYPES_values \<Longrightarrow>
   ascii ''Invalid letter type: '' @ lt \<in> set (errors (validateInputs lt at ld))"
  by (simp add: validateInputs_def Let_def)

lemma errors_author_type:
  "at \<notin> set AUTHOR_TYPES_values \<Longrightarrow>
   ascii ''Invalid author type: '' @ at \<in> set (errors (validateInputs lt at ld))"
  by (simp add: validateInputs_def Let_def)

lemma errors_no_object:
  "ld = JsFalsy \<or> ld = JsNonObject \<Longrightarrow>
   ascii ''Letter data is required and must be an object'' \<in> set (errors (validateInputs lt at ld))"
  by (auto simp: validateInputs_def Let_def)

lemma errors_missing:
  "lt \<noteq> OTHER \<Longrightarrow> f \<in> set requiredFields \<Longrightarrow> \<not> truthy (d f) \<Longrightarrow>
   ascii ''Missing required fields: '' @ join_js (ascii '', '') (filter (\<lambda>field. \<not> truthy (d field)) requiredFields)
     \<in> set (errors (validateInputs lt at (JsObject d)))
   \<and> f \<in> set (filter (\<lambda>field. \<not> truthy (d field)) requiredFields)"
  by (auto simp: validateInputs_def Let_def filter_empty_conv)

lemma portrait_only_sponsor:
  "at \<in> set AUTHOR_TYPES_values \<Longrightarrow>
   generatePersonalizedLetter this PORTRAIT at (JsObject only_sponsor_empty) =
     Inl (Error (ascii ''Template generation failed: Missing required fields: sponsorName, childKoreanName, childEnglishName''))"
  by (simp add: generatePersonalizedLetter_def validateInputs_def Let_def only_sponsor_empty_def
      requiredFields_def truthy_def PORTRAIT_def OTHER_def LETTER_TYPES_values_def HANDPRINT_def ascii_def)

text \<open>
  Claim C5. The generator fails exactly when the letter type is not one of the three
  known values, or the author type is not one of the three known values, or the data is
  falsy or not an object, or the letter type is not OTHER and one of the three required
  fields is falsy (absent or empty). A failure is always the validation error, and its
  message lists every problem at once: the invalid letter type, the invalid author
  type, the missing data, and the list of all the required fields that are falsy, each
  by its name. In particular, for the letter type PORTRAIT, a known author type and the
  data \<open>{sponsorName: ""}\<close>, the message names the three required fields.
\<close>

theorem generate_fails_listing_all:
  "(isl (generatePersonalizedLetter LetterTemplateGenerator lt at ld) \<longleftrightarrow>
      lt \<notin> set LETTER_TYPES_values \<or> at \<notin> set AUTHOR_TYPES_values
      \<or> ld = JsFalsy \<or> ld = JsNonObject
      \<or> (lt \<noteq> OTHER \<and> (\<exists>d. ld = JsObject d \<and> (\<exists>f\<in>set requiredFields. \<not> truthy (d f)))))
   \<and> (isl (generatePersonalizedLetter LetterTemplateGenerator lt at ld) \<longrightarrow>
        (\<exists>msg. generatePersonalizedLetter LetterTemplateGenerator lt at ld = Inl (Error msg)
           \<and> (lt \<notin> set LETTER_TYPES_values \<longrightarrow>
                includes_js msg (ascii ''Invalid letter type: '' @ lt))
           \<and> (at \<notin> set AUTHOR_TYPES_values \<longrightarrow>
                includes_js msg (ascii ''Invalid author type: '' @ at))
           \<and> (ld = JsFalsy \<or> ld = JsNonObject \<longrightarrow>
                includes_js msg (ascii ''Letter data is required and must be an object''))
           \<and> (\<forall>d. ld = JsObject d \<and> lt \<noteq> OTHER \<longrightarrow>
                (\<forall>f\<in>set requiredFields. \<not> truthy (d f) \<longrightarrow>
                   includes_js msg
                     (ascii ''Missing required fields: ''
                      @ join_js (ascii '', '') (filter (\<lambda>field. \<not> truthy (d field)) requiredFields))
                   \<and> includes_js msg f))))
   \<and> (at \<in> set AUTHOR_TYPES_values \<longrightarrow>
        generatePersonalizedLetter LetterTemplateGenerator PORTRAIT at (JsObject only_sponsor_empty) =
          Inl (Error (ascii ''Template generation failed: Missing required fields: sponsorName, childKoreanName, childEnglishName'')))"
proof (intro conjI impI)
  show "isl (generatePersonalizedLetter LetterTemplateGenerator lt at ld) \<longleftrightarrow>
      lt \<notin> set LETTER_TYPES_values \<or> at \<notin> set AUTHOR_TYPES_values
      \<or> ld = JsFalsy \<or> ld = JsNonObject
      \<or> (lt \<noteq> OTHER \<and> (\<exists>d. ld = JsObject d \<and> (\<exists>f\<in>set requiredFields. \<not> truthy (d f))))"
    unfolding generate_isl_iff isValid_iff by (cases ld) (auto simp: list_all_iff)
next
  assume at: "at \<in> set AUTHOR_TYPES_values"
  then show "generatePersonalizedLetter LetterTemplateGenerator PORTRAIT at (JsObject only_sponsor_empty) =
          Inl (Error (ascii ''Template generation failed: Missing required fields: sponsorName, childKoreanName, childEnglishName''))"
    by (rule portrait_only_sponsor)
next
  let ?v = "validateInputs lt at ld"
  let ?msg = "ascii ''Template generation failed: '' @ join_js (ascii '', '') (errors ?v)"
  assume "isl (generatePersonalizedLetter LetterTemplateGenerator lt at ld)"
  then have inv: "\<not> isValid ?v" by (simp add: generate_isl_iff)
  then have res: "generatePersonalizedLetter LetterTemplateGenerator lt at ld = Inl (Error ?msg)"
    by (rule generate_invalid)
  have a: "lt \<notin> set LETTER_TYPES_values \<longrightarrow> includes_js ?msg (ascii ''Invalid letter type: '' @ lt)"
    using errors_letter_type includes_message by blast
  have b: "at \<notin> set AUTHOR_TYPES_values \<longrightarrow> includes_js ?msg (ascii ''Invalid author type: '' @ at)"
    using errors_author_type includes_message by blast
  have c: "ld = JsFalsy \<or> ld = JsNonObject \<longrightarrow>
      includes_js ?msg (ascii ''Letter data is required and must be an object'')"
    using errors_no_object includes_message by blast
  have d: "\<forall>d. ld = JsObject d \<and> lt \<noteq> OTHER \<longrightarrow>
      (\<forall>f\<in>set requiredFields. \<not> truthy (d f) \<longrightarrow>
         includes_js ?msg
           (ascii ''Missing required fields: ''
            @ join_js (ascii '', '') (filter (\<lambda>field. \<not> truthy (d field)) requiredFields))
         \<and> includes_js ?msg f)"
  proof (intro allI impI ballI, elim conjE)
    fix d f
    assume ld: "ld = JsObject d" and lt: "lt \<noteq> OTHER"
      and f: "f \<in> set requiredFields" and m: "\<not> truthy (d f)"
    let ?e = "ascii ''Missing required fields: '' @ join_js (ascii '', '') (filter (\<lambda>field. \<not> truthy (d field)) requiredFields)"
    from errors_missing [of lt f d at, OF lt f m] ld
    have e: "?e \<in> set (errors ?v)" and fm: "f \<in> set (filter (\<lambda>field. \<not> truthy (d field)) requiredFields)" by simp_all
    have "sublist f (join_js (ascii '', '') (filter (\<lambda>field. \<not> truthy (d field)) requiredFields))"
      using fm by (rule sublist_join_js)
    then have "sublist f ?e" by (meson sublist_append)
    with e have "includes_js ?msg f" by (rule includes_message)
    moreover have "includes_js ?msg ?e" using e by (rule includes_message) simp
    ultimately show "includes_js ?msg
           (ascii ''Missing required fields: ''
            @ join_js (ascii '', '') (filter (\<lambda>field. \<not> truthy (d field)) requiredFields))
         \<and> includes_js ?msg f"
      by simp
  qed
  from res a b c d
  show "\<exists>msg. generatePersonalizedLetter LetterTemplateGenerator lt at ld = Inl (Error msg)
           \<and> (lt \<notin> set LETTER_TYPES_values \<longrightarrow>
                includes_js msg (ascii ''Invalid letter type: '' @ lt))
           \<and> (at \<notin> set AUTHOR_TYPES_values \<longrightarrow>
                includes_js msg (ascii ''Invalid author type: '' @ at))
           \<and> (ld = JsFalsy \<or> ld = JsNonObject \<longrightarrow>
                includes_js msg (ascii ''Letter data is required and must be an object''))
           \<and> (\<forall>d. ld = JsObject d \<and> lt \<noteq> OTHER \<longrightarrow>
                (\<forall>f\<in>set requiredFields. \<not> truthy (d f) \<longrightarrow>
                   includes_js msg
                     (ascii ''Missing required fields: ''
                      @ join_js (ascii '', '') (filter (\<lambda>field. \<not> truthy (d field)) requiredFields))
                   \<and> includes_js msg f))"
    by blast
qed

text \<open>
  The instance of C5 at PORTRAIT, CHILD and the data \<open>{sponsorName: ""}\<close>.
\<close>

theorem generate_fails_listing_all_witness:
  "isl (generatePersonalizedLetter LetterTemplateGenerator PORTRAIT CHILD (JsObject only_sponsor_empty))
   \<and> generatePersonalizedLetter LetterTemplateGenerator PORTRAIT CHILD (JsObject only_sponsor_empty) =
       Inl (Error (ascii ''Template generation failed: Missing required fields: sponsorName, childKoreanName, childEnglishName''))"
  using generate_fails_listing_all [of PORTRAIT CHILD "JsObject only_sponsor_empty"]
  by (simp add: config_defs ascii_def)

lemma prefix_join_js: "prefix x (join_js sep (x # xs))"
  by (cases xs) simp_all

lemma suffix_join_js: "suffix x (join_js sep (xs @ [x]))"
proof (cases xs)
  case Nil
  then show ?thesis by simp
next
  case (Cons y ys)
  then have "xs \<noteq> []" by simp
  then have "join_js sep (xs @ [x]) = (join_js sep xs @ sep) @ x"
    using join_js_append [of xs "[x]" sep] by simp
  then show ?thesis by (metis suffixI)
qed

lemma simple_template_ends:
  "prefix (greeting_line d) (generateSimpleTemplate this at d)
   \<and> suffix (signature_line d) (generateSimpleTemplate this at d)"
proof -
  have s: "suffix (signature_line d) (join_js [10] (xs @ [signature_line d]))" for xs
    by (rule suffix_join_js)
  show ?thesis
    using s [of "[greeting_line d, []]"]
      s [of "[greeting_line d, [], template_str (helperStatements this at), []]"]
    by (simp add: generateSimpleTemplate_def Let_def prefix_join_js del: join_js.simps)
qed

text \<open>
  Claim C2, as stated, fails: for the letter type OTHER the generator does not require
  the names. With the three names empty it returns a letter, whose greeting and
  signature hold the empty names.
\<close>

theorem other_counterexample:
  "generatePersonalizedLetter LetterTemplateGenerator OTHER CHILD (JsObject empty_names) =
     Inr ([0xC0AC, 0xB791, 0xD558, 0xB294] @ ascii ''  '' @ [0xD6C4, 0xC6D0, 0xC790, 0xB2D8, 0xAED8]
          @ ascii '','' @ [10, 10]
          @ [0xD6C4, 0xC6D0, 0xC790, 0xB2D8, 0xC758] @ ascii '' '' @ [0xD6C4, 0xC6D0, 0xC544, 0xB3D9]
          @ ascii '', () '' @ [0xC62C, 0xB9BC])"
  by (simp add: generatePersonalizedLetter_def validateInputs_def config_defs ascii_def
      generateSimpleTemplate_def LetterTemplateGenerator_def empty_names_def truthy_def
      greeting_line_def signature_line_def template_str_def)

text \<open>
  Claim C2, amended. For the letter type OTHER no field of the data is required: the
  generator fails only for an unknown author type or for data that is falsy or not an
  object. For a known author type and any object, also one whose names are empty or
  absent, it returns the short letter, which starts with the greeting line and ends with
  the signature line built from the names as they are (an absent name prints as
  "undefined").
\<close>

theorem other_requires_no_field:
  "(isl (generatePersonalizedLetter LetterTemplateGenerator OTHER at ld) \<longleftrightarrow>
      at \<notin> set AUTHOR_TYPES_values \<or> ld = JsFalsy \<or> ld = JsNonObject)
   \<and> (at \<in> set AUTHOR_TYPES_values \<longrightarrow>
        generatePersonalizedLetter LetterTemplateGenerator OTHER at (JsObject d) =
          Inr (generateSimpleTemplate LetterTemplateGenerator at d)
        \<and> prefix ([0xC0AC, 0xB791, 0xD558, 0xB294] @ ascii '' ''
                   @ template_str (d (ascii ''sponsorName'')) @ ascii '' ''
                   @ [0xD6C4, 0xC6D0, 0xC790, 0xB2D8, 0xAED8] @ ascii '','')
             (generateSimpleTemplate LetterTemplateGenerator at d)
        \<and> suffix ([0xD6C4, 0xC6D0, 0xC790, 0xB2D8, 0xC758] @ ascii '' ''
                   @ [0xD6C4, 0xC6D0, 0xC544, 0xB3D9] @ ascii '', ''
                   @ template_str (d (ascii ''childKoreanName'')) @ ascii ''(''
                   @ template_str (d (ascii ''childEnglishName'')) @ ascii '') '' @ [0xC62C, 0xB9BC])
             (generateSimpleTemplate LetterTemplateGenerator at d))"
proof (intro conjI impI)
  have "OTHER \<in> set LETTER_TYPES_values" by (simp add: LETTER_TYPES_values_def)
  then show "isl (generatePersonalizedLetter LetterTemplateGenerator OTHER at ld) \<longleftrightarrow>
      at \<notin> set AUTHOR_TYPES_values \<or> ld = JsFalsy \<or> ld = JsNonObject"
    unfolding generate_isl_iff isValid_iff by (cases ld) auto
next
  assume at: "at \<in> set AUTHOR_TYPES_values"
  have "OTHER \<in> set LETTER_TYPES_values" by (simp add: LETTER_TYPES_values_def)
  with at have "isValid (validateInputs OTHER at (JsObject d))" by (simp add: isValid_iff)
  then show "generatePersonalizedLetter LetterTemplateGenerator OTHER at (JsObject d) =
          Inr (generateSimpleTemplate LetterTemplateGenerator at d)"
    by (simp add: generatePersonalizedLetter_def)
next
  show "prefix ([0xC0AC, 0xB791, 0xD558, 0xB294] @ ascii '' ''
                   @ template_str (d (ascii ''sponsorName'')) @ ascii '' ''
                   @ [0xD6C4, 0xC6D0, 0xC790, 0xB2D8, 0xAED8] @ ascii '','')
             (generateSimpleTemplate LetterTemplateGenerator at d)"
    using simple_template_ends [of d LetterTemplateGenerator at]
    by (simp only: greeting_line_def)
next
  show "suffix ([0xD6C4, 0xC6D0, 0xC790, 0xB2D8, 0xC758] @ ascii '' ''
                   @ [0xD6C4, 0xC6D0, 0xC544, 0xB3D9] @ ascii '', ''
                   @ template_str (d (ascii ''childKoreanName'')) @ ascii ''(''
                   @ template_str (d (ascii ''childEnglishName'')) @ ascii '') '' @ [0xC62C, 0xB9BC])
             (generateSimpleTemplate LetterTemplateGenerator at d)"
    using simple_template_ends [of d LetterTemplateGenerator at]
    by (simp only: signature_line_def)
qed

text \<open>
  The instance of the amended C2 at CHILD and the three empty names.
\<close>

theorem other_requires_no_field_witness:
  "\<not> isl (generatePersonalizedLetter LetterTemplateGenerator OTHER CHILD (JsObject empty_names))
   \<and> generatePersonalizedLetter LetterTemplateGenerator OTHER CHILD (JsObject empty_names) =
       Inr (generateSimpleTemplate LetterTemplateGenerator CHILD empty_names)"
  using other_requires_no_field [of CHILD "JsObject empty_names" empty_names]
  by (simp add: config_defs ascii_def)

text \<open>
  The generator reads the data through the three name properties only: two data objects
  that agree on \<open>sponsorName\<close>, \<open>childKoreanName\<close> and \<open>childEnglishName\<close> give the
  same result, whatever else they hold.
\<close>

lemma generate_reads_three_fields:
  "(\<forall>f\<in>set requiredFields. d1 f = d2 f) \<Longrightarrow>
   generatePersonalizedLetter this lt at (JsObject d1) =
   generatePersonalizedLetter this lt at (JsObject d2)"
proof -
  assume "\<forall>f\<in>set requiredFields. d1 f = d2 f"
  then have eq: "d1 (ascii ''sponsorName'') = d2 (ascii ''sponsorName'')"
    "d1 (ascii ''childKoreanName'') = d2 (ascii ''childKoreanName'')"
    "d1 (ascii ''childEnglishName'') = d2 (ascii ''childEnglishName'')"
    by (simp_all add: requiredFields_def)
  have v: "validateInputs lt at (JsObject d1) = validateInputs lt at (JsObject d2)"
    by (simp add: validateInputs_def requiredFields_def eq)
  have g: "greeting_line d1 = greeting_line d2" by (simp add: greeting_line_def eq)
  have s: "signature_line d1 = signature_line d2" by (simp add: signature_line_def eq)
  have simple: "generateSimpleTemplate this at d1 = generateSimpleTemplate this at d2"
    by (simp add: generateSimpleTemplate_def g s)
  have full: "generateFullTemplate this lt at d1 = generateFullTemplate this lt at d2"
    by (cases "templateConfigs this lt") (simp_all add: generateFullTemplate_def g s eq)
  show ?thesis
    by (simp add: generatePersonalizedLetter_def v simple full Let_def cong: if_cong)
qed

lemma truthy_iff: "truthy v \<longleftrightarrow> \<not> (v = None \<or> v = Some [])"
  by (cases v) (simp_all add: truthy_def)

lemma suffix_join_last: "parts \<noteq> [] \<Longrightarrow> suffix (last parts) (join_js sep parts)"
proof -
  assume "parts \<noteq> []"
  then have "parts = butlast parts @ [last parts]" by simp
  then show ?thesis using suffix_join_js [of "last parts" sep "butlast parts"] by simp
qed

lemma full_template_embeds:
  assumes "generateFullTemplate this lt at d = Inr letter"
  shows "prefix (greeting_line d) letter
    \<and> sublist ([0xC81C] @ ascii '' '' @ [0xC774, 0xB984, 0xC740] @ ascii '' ''
                @ template_str (d (ascii ''childKoreanName'')) @ ascii ''(''
                @ template_str (d (ascii ''childEnglishName'')) @ ascii '')''
                @ [0xC774, 0xC5D0, 0xC694] @ ascii ''. '' @ [0xC6B0, 0xB9AC] @ ascii '' ''
                @ [0xC11C, 0xB85C] @ ascii '' '' @ [0xC54C, 0xC544, 0xAC00, 0xC694] @ ascii ''!'')
         letter
    \<and> suffix (signature_line d) letter"
proof -
  let ?intro = "[0xC81C] @ ascii '' '' @ [0xC774, 0xB984, 0xC740] @ ascii '' ''
                @ template_str (d (ascii ''childKoreanName'')) @ ascii ''(''
                @ template_str (d (ascii ''childEnglishName'')) @ ascii '')''
                @ [0xC774, 0xC5D0, 0xC694] @ ascii ''. '' @ [0xC6B0, 0xB9AC] @ ascii '' ''
                @ [0xC11C, 0xB85C] @ ascii '' '' @ [0xC54C, 0xC544, 0xAC00, 0xC694] @ ascii ''!''"
  from assms obtain rest
    where l: "letter = join_js [10] (greeting_line d # rest)"
      and i: "?intro \<in> set (greeting_line d # rest)"
      and s: "last (greeting_line d # rest) = signature_line d"
    by (cases "templateConfigs this lt")
      (auto simp: generateFullTemplate_def Let_def simp del: join_js.simps split: if_splits)
  have "prefix (greeting_line d) letter" unfolding l by (rule prefix_join_js)
  moreover have "sublist ?intro letter" unfolding l using i by (rule sublist_join_js)
  moreover have "suffix (signature_line d) letter"
    unfolding l using suffix_join_last [of "greeting_line d # rest" "[10]"] s by simp
  ultimately show ?thesis by simp
qed

text \<open>
  Claim C10. For the letter types HANDPRINT and PORTRAIT and a known author type, a
  required field counts as missing only when it is falsy, that is absent or the empty
  string: the generator fails exactly when one of the three fields is absent or empty.
  Any other values pass, values made of white space only too, and the letter then holds
  each of the three values as it is, untrimmed: it starts with the greeting line around
  the sponsor name, it contains the introduction line around the two names of the child,
  and it ends with the signature line around the two names of the child.
\<close>

theorem nonempty_fields_pass:
  "lt = HANDPRINT \<or> lt = PORTRAIT \<Longrightarrow> at \<in> set AUTHOR_TYPES_values \<Longrightarrow>
   (isl (generatePersonalizedLetter LetterTemplateGenerator lt at (JsObject d)) \<longleftrightarrow>
      (\<exists>f\<in>set requiredFields. d f = None \<or> d f = Some []))
   \<and> (\<forall>s k e. d (ascii ''sponsorName'') = Some s \<and> d (ascii ''childKoreanName'') = Some k
          \<and> d (ascii ''childEnglishName'') = Some e \<and> s \<noteq> [] \<and> k \<noteq> [] \<and> e \<noteq> [] \<longrightarrow>
        (\<exists>letter. generatePersonalizedLetter LetterTemplateGenerator lt at (JsObject d) = Inr letter
           \<and> prefix ([0xC0AC, 0xB791, 0xD558, 0xB294] @ ascii '' '' @ s @ ascii '' ''
                      @ [0xD6C4, 0xC6D0, 0xC790, 0xB2D8, 0xAED8] @ ascii '','') letter
           \<and> includes_js letter
                ([0xC81C] @ ascii '' '' @ [0xC774, 0xB984, 0xC740] @ ascii '' ''
                 @ k @ ascii ''('' @ e @ ascii '')''
                 @ [0xC774, 0xC5D0, 0xC694] @ ascii ''. '' @ [0xC6B0, 0xB9AC] @ ascii '' ''
                 @ [0xC11C, 0xB85C] @ ascii '' '' @ [0xC54C, 0xC544, 0xAC00, 0xC694] @ ascii ''!'')
           \<and> suffix ([0xD6C4, 0xC6D0, 0xC790, 0xB2D8, 0xC758] @ ascii '' ''
                      @ [0xD6C4, 0xC6D0, 0xC544, 0xB3D9] @ ascii '', ''
                      @ k @ ascii ''('' @ e @ ascii '') '' @ [0xC62C, 0xB9BC]) letter))"
proof (intro conjI allI impI, goal_cases)
  case 1
  assume lt: "lt = HANDPRINT \<or> lt = PORTRAIT" and at: "at \<in> set AUTHOR_TYPES_values"
  from lt have "lt \<in> set LETTER_TYPES_values" "lt \<noteq> OTHER"
    by (auto simp: config_defs ascii_def)
  with at show ?case
    unfolding generate_isl_iff isValid_iff
    by (auto simp: list_all_iff truthy_iff)
next
  case (2 s k e)
  assume lt: "lt = HANDPRINT \<or> lt = PORTRAIT" and at: "at \<in> set AUTHOR_TYPES_values"
  from 2 have s: "d (ascii ''sponsorName'') = Some s"
    and k: "d (ascii ''childKoreanName'') = Some k"
    and e: "d (ascii ''childEnglishName'') = Some e"
    and ne: "s \<noteq> []" "k \<noteq> []" "e \<noteq> []"
    by simp_all
  from lt have types: "lt \<in> set LETTER_TYPES_values" and other: "lt \<noteq> OTHER"
    by (auto simp: config_defs ascii_def)
  from s k e ne have "list_all (\<lambda>f. truthy (d f)) requiredFields"
    by (simp add: requiredFields_def truthy_def)
  with types at have v: "isValid (validateInputs lt at (JsObject d))"
    by (simp add: isValid_iff)
  then obtain letter
    where letter: "generatePersonalizedLetter LetterTemplateGenerator lt at (JsObject d) = Inr letter"
    using generate_valid by blast
  with v other have "generateFullTemplate LetterTemplateGenerator lt at d = Inr letter"
    by (simp add: generatePersonalizedLetter_def)
  from full_template_embeds [OF this] s k e letter
  show ?case
    by (simp add: greeting_line_def signature_line_def template_str_def includes_js_sublist)
qed

text \<open>
  The instance of C10 at HANDPRINT, CHILD and three names of white space only (one
  space, two spaces, one tab): the generator succeeds and the greeting, the introduction
  and the signature hold the white space.
\<close>

theorem nonempty_fields_pass_witness:
  "\<not> isl (generatePersonalizedLetter LetterTemplateGenerator HANDPRINT CHILD (JsObject blank_names))
   \<and> (\<exists>letter. generatePersonalizedLetter LetterTemplateGenerator HANDPRINT CHILD
                   (JsObject blank_names) = Inr letter
          \<and> prefix ([0xC0AC, 0xB791, 0xD558, 0xB294] @ ascii ''   ''
                     @ [0xD6C4, 0xC6D0, 0xC790, 0xB2D8, 0xAED8] @ ascii '','') letter
          \<and> includes_js letter
               ([0xC81C] @ ascii '' '' @ [0xC774, 0xB984, 0xC740] @ ascii ''   ('' @ [9] @ ascii '')''
                @ [0xC774, 0xC5D0, 0xC694] @ ascii ''. '' @ [0xC6B0, 0xB9AC] @ ascii '' ''
                @ [0xC11C, 0xB85C] @ ascii '' '' @ [0xC54C, 0xC544, 0xAC00, 0xC694] @ ascii ''!'')
          \<and> suffix ([0xD6C4, 0xC6D0, 0xC790, 0xB2D8, 0xC758] @ ascii '' ''
                     @ [0xD6C4, 0xC6D0, 0xC544, 0xB3D9] @ ascii '',   ('' @ [9] @ ascii '') ''
                     @ [0xC62C, 0xB9BC]) letter)"
proof -
  have f: "\<not> (\<exists>f\<in>set requiredFields. blank_names f = None \<or> blank_names f = Some [])"
    by (simp add: requiredFields_def blank_names_def ascii_def)
  have s: "blank_names (ascii ''sponsorName'') = Some (ascii '' '')"
    "blank_names (ascii ''childKoreanName'') = Some (ascii ''  '')"
    "blank_names (ascii ''childEnglishName'') = Some [9]"
    by (simp_all add: blank_names_def ascii_def)
  have a: "CHILD \<in> set AUTHOR_TYPES_values" by (simp add: AUTHOR_TYPES_values_def)
  from nonempty_fields_pass [of HANDPRINT CHILD blank_names, OF _ a] f s
  show ?thesis by (simp add: ascii_def)
qed

section \<open>The contents of the generated letters\<close>


lemma template_str_None: "template_str None = ascii ''undefined''"
  by (simp add: template_str_def)
































text \<open>
  Claim C8. For the letter type OTHER, the author type CHILD and the data of Hong Gildong
  and Kim Minsu, the generator succeeds; the letter contains neither helper statement; it
  has three lines, the greeting, an empty line and the signature, and so its last line is
  exactly the signature of Kim Minsu (Minsu Kim).
\<close>

theorem other_child_example:
  "(case generatePersonalizedLetter LetterTemplateGenerator OTHER CHILD (JsObject minsu_data) of
      Inl e \<Rightarrow> False
    | Inr letter \<Rightarrow>
        \<not> includes_js letter named_helper_statement
        \<and> \<not> includes_js letter anonymous_helper_statement
        \<and> lines_js letter =
            [ [0xC0AC, 0xB791, 0xD558, 0xB294] @ ascii '' '' @ [0xD64D, 0xAE38, 0xB3D9] @ ascii '' ''
                @ [0xD6C4, 0xC6D0, 0xC790, 0xB2D8, 0xAED8] @ ascii '','',
              [],
              minsu_signature ]
        \<and> last (lines_js letter) = minsu_signature)"
  by (simp add: generatePersonalizedLetter_def validateInputs_def config_defs ascii_def
      generateSimpleTemplate_def LetterTemplateGenerator_def minsu_data_def truthy_def
      greeting_line_def signature_line_def template_str_def minsu_signature_def
      named_helper_statement_def anonymous_helper_statement_def)

section \<open>The close requests of the tab-close watcher\<close>

lemma sendCloseTab_sent [simp]:
  "length (sent (sendCloseTab opener w)) = Suc (length (sent w))"
  "observing (sendCloseTab opener w) = observing w"
  by (simp_all add: sendCloseTab_def)

lemma checkUrl_sent:
  "length (sent (checkUrlAndCloseIfNeeded win w)) =
     length (sent w) + (if href win = TARGET_URL then 1 else 0)"
  "observing (checkUrlAndCloseIfNeeded win w) = observing w"
  by (simp_all add: checkUrlAndCloseIfNeeded_def Let_def)

lemma on_interval_sent:
  "length (sent (on_interval win w)) \<le> Suc (length (sent w))"
  "length (sent w) \<le> length (sent (on_interval win w))"
  "observing (on_interval win w) = observing w"
  by (simp_all add: on_interval_def checkUrl_sent)

lemma alert_override_sent:
  "length (sent (alert_override msg w)) \<le> Suc (length (sent w))"
  "length (sent w) \<le> length (sent (alert_override msg w))"
  "observing (alert_override msg w) = observing w"
  by (simp_all add: alert_override_def split: option.splits)

lemma handle_other:
  "\<not> is_mutation e \<Longrightarrow> observing (handle w e) = observing w"
  by (cases e)
    (simp_all add: checkUrl_sent on_interval_sent on_beforeunload_def alert_override_sent)

lemma handle_adds:
  "length (sent w) \<le> length (sent (handle w e))
   \<and> length (sent (handle w e)) \<le> Suc (length (sent w))"
  by (cases e)
    (simp_all add: checkUrl_sent on_interval_sent on_beforeunload_def alert_override_sent
      observer_callback_def split: option.splits)

lemma handle_length:
  "length (sent (handle w e)) = length (sent w) + (if sends w e then 1 else 0)"
  using handle_adds [of w e] by (auto simp: sends_def)

lemma mutation_sends:
  "sends w (Mutation body) \<Longrightarrow> observing w \<and> \<not> observing (handle w (Mutation body))"
  by (auto simp: sends_def observer_callback_def split: option.splits if_splits)

lemma mutation_keeps_disconnected:
  "\<not> observing w \<Longrightarrow> handle w (Mutation body) = w"
  by simp

lemma mutation_observing:
  "observing (handle w (Mutation body)) \<Longrightarrow> observing w"
  by (auto split: if_splits)

lemma mutation_requests_bound:
  "mutation_requests w es + of_bool (observing (foldl handle w es))
   \<le> (of_bool (observing w) :: nat)"
proof (induction es arbitrary: w)
  case Nil
  show ?case by simp
next
  case (Cons e es)
  have ih: "mutation_requests (handle w e) es + of_bool (observing (foldl handle (handle w e) es))
      \<le> (of_bool (observing (handle w e)) :: nat)"
    by (rule Cons.IH)
  have f: "foldl handle w (e # es) = foldl handle (handle w e) es" by simp
  show ?case
  proof (cases "is_mutation e")
    case False
    then have m: "mutation_requests w (e # es) = mutation_requests (handle w e) es"
      by (simp del: handle.simps)
    from False have "observing (handle w e) = observing w" by (rule handle_other)
    with ih show ?thesis unfolding f m by (simp only:)
  next
    case True
    then obtain body where e: "e = Mutation body" by (cases e) simp_all
    show ?thesis
    proof (cases "sends w e")
      case True
      with e have o: "observing w" and n: "\<not> observing (handle w e)"
        using mutation_sends [of w body] by blast+
      from True \<open>is_mutation e\<close>
      have m: "mutation_requests w (e # es) = Suc (mutation_requests (handle w e) es)"
        by (simp del: handle.simps)
      from n have "(of_bool (observing (handle w e)) :: nat) = 0" by simp
      with ih have "mutation_requests (handle w e) es = 0"
        and "(of_bool (observing (foldl handle (handle w e) es)) :: nat) = 0"
        by linarith+
      moreover from o have "(of_bool (observing w) :: nat) = 1" by simp
      ultimately show ?thesis unfolding f m by (simp only:)
    next
      case False
      then have m: "mutation_requests w (e # es) = mutation_requests (handle w e) es"
        by (simp del: handle.simps)
      have "observing (handle w e) \<Longrightarrow> observing w"
        unfolding e by (rule mutation_observing)
      then have "(of_bool (observing (handle w e)) :: nat) \<le> of_bool (observing w)"
        by (cases "observing (handle w e)") simp_all
      with ih show ?thesis unfolding f m by (rule order_trans)
    qed
  qed
qed

lemma requests_sum:
  "length (sent (foldl handle w es)) =
     length (sent w) + mutation_requests w es + other_requests w es"
proof (induction es arbitrary: w)
  case Nil
  show ?case by simp
next
  case (Cons e es)
  from Cons.IH [of "handle w e"] handle_length [of w e]
  show ?case by (cases "is_mutation e") simp_all
qed

lemma other_requests_bound:
  "other_requests w es \<le> length (filter (\<lambda>e. \<not> is_mutation e) es)"
proof (induction es arbitrary: w)
  case Nil
  show ?case by simp
next
  case (Cons e es)
  from Cons.IH [of "handle w e"] show ?case by simp
qed

lemma stays_disconnected:
  "\<not> observing w \<Longrightarrow> \<not> observing (foldl handle w es)"
proof (induction es arbitrary: w)
  case Nil
  then show ?case by simp
next
  case (Cons e es)
  from Cons.prems have "\<not> observing (handle w e)"
    using handle_other [of e w] mutation_keeps_disconnected [of w]
    by (cases e) simp_all
  then show ?case using Cons.IH [of "handle w e"] by simp
qed

lemma disconnected_ignores_mutations:
  "\<not> observing w \<Longrightarrow>
   foldl handle w es = foldl handle w (filter (\<lambda>e. \<not> is_mutation e) es)"
proof (induction es arbitrary: w)
  case Nil
  show ?case by simp
next
  case (Cons e es)
  show ?case
  proof (cases "is_mutation e")
    case True
    then obtain body where "e = Mutation body" by (cases e) simp_all
    with Cons show ?thesis by simp
  next
    case False
    with Cons.prems have "\<not> observing (handle w e)" using handle_other [of e w] by simp
    with False Cons.IH [of "handle w e"] show ?thesis by simp
  qed
qed

text \<open>
  Claim C1, amended. Of the triggers of the watcher only the mutation observer is torn
  down after it has fired: over a page load, whatever signals arrive and in whatever
  order, the mutations cause at most one close request. The number of requests of a
  page load is the number that the mutations cause plus the number that the other
  signals cause, so it is at most one more than the number of signals that are not
  mutations. When the observer is connected and the body holds the success text, the
  callback sends one request and disconnects the observer; once it is disconnected it
  stays so under every signal, no mutation causes a request, and the mutations among the
  signals change nothing. The other triggers are not suppressed, whatever was sent
  before: every \<open>beforeunload\<close> sends a request, and so does every check of the address
  that finds the success address (on \<open>popstate\<close>, on \<open>hashchange\<close>, after a submit, and
  on the interval when the address differs from the last one seen), and every alert
  whose message holds the success word, once the override of \<open>window.alert\<close> is
  installed.
\<close>

theorem close_requests:
  "mutation_requests (script_loaded url) es \<le> 1
   \<and> length (sent (page_load url es)) =
       mutation_requests (script_loaded url) es + other_requests (script_loaded url) es
   \<and> length (sent (page_load url es)) \<le> 1 + length (filter (\<lambda>e. \<not> is_mutation e) es)
   \<and> (observing w \<and> includes_js body success_text \<longrightarrow>
        \<not> observing (handle w (Mutation (Some body)))
        \<and> length (sent (handle w (Mutation (Some body)))) = Suc (length (sent w)))
   \<and> (\<not> observing w \<longrightarrow>
        \<not> observing (foldl handle w es)
        \<and> mutation_requests w es = 0
        \<and> foldl handle w es = foldl handle w (filter (\<lambda>e. \<not> is_mutation e) es))
   \<and> length (sent (handle w Beforeunload)) = Suc (length (sent w))
   \<and> (href win = TARGET_URL \<longrightarrow>
        length (sent (handle w (Popstate win))) = Suc (length (sent w))
        \<and> length (sent (handle w (Hashchange win))) = Suc (length (sent w))
        \<and> length (sent (handle w (SubmitTimer win))) = Suc (length (sent w)))
   \<and> (href win = TARGET_URL \<and> href win \<noteq> lastUrl w \<longrightarrow>
        length (sent (handle w (Interval win))) = Suc (length (sent w)))
   \<and> (alertOverride w \<and> includes_js msg success_word \<longrightarrow>
        length (sent (handle w (Alert (Some msg)))) = Suc (length (sent w)))"
proof (intro conjI impI)
  show m: "mutation_requests (script_loaded url) es \<le> 1"
    using mutation_requests_bound [of "script_loaded url" es]
    by (cases "observing (foldl handle (script_loaded url) es)") (simp_all add: script_loaded_def)
  show s: "length (sent (page_load url es)) =
       mutation_requests (script_loaded url) es + other_requests (script_loaded url) es"
    using requests_sum [of "script_loaded url" es]
    by (simp add: page_load_def script_loaded_def)
  from m s other_requests_bound [of "script_loaded url" es]
  show "length (sent (page_load url es)) \<le> 1 + length (filter (\<lambda>e. \<not> is_mutation e) es)"
    by simp
next
  assume "observing w \<and> includes_js body success_text"
  then show "\<not> observing (handle w (Mutation (Some body)))"
    and "length (sent (handle w (Mutation (Some body)))) = Suc (length (sent w))"
    by (simp_all add: observer_callback_def)
next
  assume n: "\<not> observing w"
  then show "\<not> observing (foldl handle w es)" by (rule stays_disconnected)
  from n show "mutation_requests w es = 0"
    using mutation_requests_bound [of w es] by simp
  from n show "foldl handle w es = foldl handle w (filter (\<lambda>e. \<not> is_mutation e) es)"
    by (rule disconnected_ignores_mutations)
next
  show "length (sent (handle w Beforeunload)) = Suc (length (sent w))"
    by (simp add: on_beforeunload_def)
next
  assume "href win = TARGET_URL"
  then show "length (sent (handle w (Popstate win))) = Suc (length (sent w))"
    and "length (sent (handle w (Hashchange win))) = Suc (length (sent w))"
    and "length (sent (handle w (SubmitTimer win))) = Suc (length (sent w))"
    by (simp_all add: checkUrl_sent)
next
  assume "href win = TARGET_URL \<and> href win \<noteq> lastUrl w"
  then show "length (sent (handle w (Interval win))) = Suc (length (sent w))"
    by (auto simp: on_interval_def checkUrl_sent)
next
  assume "alertOverride w \<and> includes_js msg success_word"
  then show "length (sent (handle w (Alert (Some msg)))) = Suc (length (sent w))"
    by (simp add: alert_override_def)
qed

text \<open>
  The instance of the amended C1 at a page load with two mutations that show the success
  text, an alert with the success word and an unload between and after them.
\<close>

theorem close_requests_witness:
  "mutation_requests (script_loaded letterview_url)
      [Mutation (Some success_text), Initialized, Alert (Some success_word),
       Mutation (Some success_text), Beforeunload] \<le> 1
   \<and> length (sent (page_load letterview_url
      [Mutation (Some success_text), Initialized, Alert (Some success_word),
       Mutation (Some success_text), Beforeunload])) \<le> 4
   \<and> \<not> observing (handle (script_loaded letterview_url) (Mutation (Some success_text)))
   \<and> length (sent (handle (script_loaded letterview_url) (Mutation (Some success_text)))) = 1"
  using close_requests [of letterview_url
      "[Mutation (Some success_text), Initialized, Alert (Some success_word),
        Mutation (Some success_text), Beforeunload]"
      "script_loaded letterview_url" success_text]
  by (simp add: script_loaded_def success_text_def ascii_def)

text \<open>
  Claim C1, as stated, fails: after the mutation observer has sent a close request, the
  \<open>beforeunload\<close> signal sends a second one; two checks of the address that find the
  success address send one request each; and so do two alerts with the success text.
\<close>

theorem close_requests_counterexample:
  "length (sent (page_load letterview_url [Mutation (Some success_text), Beforeunload])) = 2
   \<and> length (sent (page_load letterview_url
        [Popstate \<lparr> href = TARGET_URL, opener_chrome_tabs = False, opener_tabId = None \<rparr>,
         Hashchange \<lparr> href = TARGET_URL, opener_chrome_tabs = False, opener_tabId = None \<rparr>])) = 2
   \<and> length (sent (page_load letterview_url
        [Initialized, Alert (Some success_text), Alert (Some success_text)])) = 2"
  by (simp add: page_load_def script_loaded_def observer_callback_def on_beforeunload_def
      checkUrlAndCloseIfNeeded_def sendCloseTab_def alert_override_def success_text_def
      success_word_def ascii_def)

section \<open>The attempts of the retry controller\<close>

lemma clickRating_not_found:
  "ratingElement page (document r) = None \<Longrightarrow>
   clickRating page k r = (False, r\<lparr> trace := trace r @ [Attempt k] \<rparr>)"
  by (simp add: clickRating_def Let_def)

lemma clickRating_found:
  "ratingElement page (document r) = Some el \<Longrightarrow> isVisible (Some el) \<Longrightarrow>
   elementClick page (document r) = Some p \<Longrightarrow>
   clickRating page k r =
     (ratingElement page (elapse page 500 p) \<noteq> None,
      \<lparr> document = elapse page 500 p, trace = trace r @ [Attempt k, Click, Delay 500] \<rparr>)"
  by (simp add: clickRating_def Let_def delay_def validateRatingClick_def)

lemma retry_loop_never_found:
  assumes "\<forall>p. ratingElement page p = None"
  shows "fst (retry_loop page this attempt r) = False
    \<and> trace (snd (retry_loop page this attempt r)) =
        trace r @ concat (map (\<lambda>k. if k < maxRetries this
                                     then [Attempt k, Delay (retryDelay this)] else [Attempt k])
                            [attempt..<maxRetries this + 1])"
  using assms
proof (induction page this attempt r rule: retry_loop.induct)
  case (1 page this attempt r)
  note nf = "1.prems"
  show ?case
  proof (cases "attempt \<le> maxRetries this")
    case False
    then show ?thesis by (simp add: retry_loop.simps [of page this attempt r])
  next
    case True
    let ?r1 = "r\<lparr> trace := trace r @ [Attempt attempt] \<rparr>"
    let ?r2 = "if attempt < maxRetries this then delay page (retryDelay this) ?r1 else ?r1"
    from nf have c: "clickRating page attempt r = (False, ?r1)"
      by (simp add: clickRating_not_found)
    with True have step: "retry_loop page this attempt r = retry_loop page this (attempt + 1) ?r2"
      by (simp add: retry_loop.simps [of page this attempt r])
    from "1.IH" [OF True c [symmetric] _ nf]
    have ih: "fst (retry_loop page this (attempt + 1) ?r2) = False
      \<and> trace (snd (retry_loop page this (attempt + 1) ?r2)) =
        trace ?r2 @ concat (map (\<lambda>k. if k < maxRetries this
                                     then [Attempt k, Delay (retryDelay this)] else [Attempt k])
                            [attempt + 1..<maxRetries this + 1])"
      by simp
    from True have u: "[attempt..<maxRetries this + 1] = attempt # [attempt + 1..<maxRetries this + 1]"
      by (simp add: upt_conv_Cons)
    from ih show ?thesis
      unfolding step u by (simp add: delay_def)
  qed
qed

lemma attempts_count:
  "length (filter is_attempt
     (concat (map (\<lambda>k. if k < m then [Attempt k, Delay d] else [Attempt k]) [a..<b]))) = b - a"
  by (induction b) simp_all

lemma delays_count:
  "b \<le> m + 1 \<Longrightarrow>
   length (filter (\<lambda>s. s = Delay d)
     (concat (map (\<lambda>k. if k < m then [Attempt k, Delay d] else [Attempt k]) [a..<b])))
   = min b m - a"
  by (induction b) auto

text \<open>
  Claim C4, amended. If the rating control is never found, the controller returns
  \<open>false\<close> (it returns, it does not throw), after exactly \<open>maxRetries + 1\<close> attempts,
  numbered from 0, with one retry delay after each attempt but the last: \<open>maxRetries\<close>
  retry delays between them and nothing else. If at the first attempt the control is
  found and visible, its click does not throw, and the control is still found after the
  settle delay of 500 ms, the controller returns \<open>true\<close> after exactly one attempt: the
  attempt, the click and the settle delay, and no retry delay.
\<close>

theorem retry_controller:
  "((\<forall>p. ratingElement page p = None) \<longrightarrow>
      fst (clickRatingWithRetry page this r) = False
      \<and> trace (snd (clickRatingWithRetry page this r)) =
          trace r @ concat (map (\<lambda>k. if k < maxRetries this
                                       then [Attempt k, Delay (retryDelay this)] else [Attempt k])
                              [0..<maxRetries this + 1])
      \<and> length (filter is_attempt
            (drop (length (trace r)) (trace (snd (clickRatingWithRetry page this r)))))
          = maxRetries this + 1
      \<and> length (filter (\<lambda>s. s = Delay (retryDelay this))
            (drop (length (trace r)) (trace (snd (clickRatingWithRetry page this r)))))
          = maxRetries this)
   \<and> (ratingElement page (document r) = Some el \<and> isVisible (Some el)
        \<and> elementClick page (document r) = Some p
        \<and> ratingElement page (elapse page 500 p) \<noteq> None \<longrightarrow>
      clickRatingWithRetry page this r =
        (True, \<lparr> document = elapse page 500 p, trace = trace r @ [Attempt 0, Click, Delay 500] \<rparr>))"
proof (intro conjI impI)
  assume nf: "\<forall>p. ratingElement page p = None"
  let ?steps = "concat (map (\<lambda>k. if k < maxRetries this
                                       then [Attempt k, Delay (retryDelay this)] else [Attempt k])
                              [0..<maxRetries this + 1])"
  from retry_loop_never_found [OF nf, of this 0 r]
  show f: "fst (clickRatingWithRetry page this r) = False"
    and t: "trace (snd (clickRatingWithRetry page this r)) = trace r @ ?steps"
    by (simp_all add: clickRatingWithRetry_def)
  have "length (filter is_attempt ?steps) = maxRetries this + 1"
    using attempts_count [of "maxRetries this" "retryDelay this" 0 "maxRetries this + 1"] by simp
  then show "length (filter is_attempt
            (drop (length (trace r)) (trace (snd (clickRatingWithRetry page this r)))))
          = maxRetries this + 1"
    by (simp add: t)
  have "length (filter (\<lambda>s. s = Delay (retryDelay this)) ?steps) = maxRetries this"
    using delays_count [of "maxRetries this + 1" "maxRetries this" "retryDelay this" 0] by simp
  then show "length (filter (\<lambda>s. s = Delay (retryDelay this))
            (drop (length (trace r)) (trace (snd (clickRatingWithRetry page this r)))))
          = maxRetries this"
    by (simp add: t)
next
  assume a: "ratingElement page (document r) = Some el \<and> isVisible (Some el)
        \<and> elementClick page (document r) = Some p
        \<and> ratingElement page (elapse page 500 p) \<noteq> None"
  then have "clickRating page 0 r =
      (True, \<lparr> document = elapse page 500 p, trace = trace r @ [Attempt 0, Click, Delay 500] \<rparr>)"
    using clickRating_found [of page r el p 0] by simp
  then show "clickRatingWithRetry page this r =
        (True, \<lparr> document = elapse page 500 p, trace = trace r @ [Attempt 0, Click, Delay 500] \<rparr>)"
    by (simp add: clickRatingWithRetry_def retry_loop.simps [of page this 0 r])
qed

text \<open>
  The instance of the amended C4 at the manager of the extension (two retries, 2000 ms)
  on a page without the control and on a page where the control stays.
\<close>

theorem retry_controller_witness:
  "fst (clickRatingWithRetry empty_page AutoRatingManager \<lparr> document = (), trace = [] \<rparr>) = False
   \<and> trace (snd (clickRatingWithRetry empty_page AutoRatingManager \<lparr> document = (), trace = [] \<rparr>)) =
       [Attempt 0, Delay 2000, Attempt 1, Delay 2000, Attempt 2]
   \<and> clickRatingWithRetry steady_page AutoRatingManager \<lparr> document = (), trace = [] \<rparr> =
       (True, \<lparr> document = (), trace = [Attempt 0, Click, Delay 500] \<rparr>)"
proof -
  have u: "[0..<3] = [0, 1, 2::nat]" by (simp add: upt_rec)
  have v: "isVisible (Some shown)" by (simp add: isVisible_def shown_def ascii_def)
  from retry_controller [of empty_page AutoRatingManager "\<lparr> document = (), trace = [] \<rparr>" shown "()"]
  have 1: "fst (clickRatingWithRetry empty_page AutoRatingManager \<lparr> document = (), trace = [] \<rparr>) = False
   \<and> trace (snd (clickRatingWithRetry empty_page AutoRatingManager \<lparr> document = (), trace = [] \<rparr>)) =
       [Attempt 0, Delay 2000, Attempt 1, Delay 2000, Attempt 2]"
    by (simp add: empty_page_def AutoRatingManager_def AUTO_RATING_RETRY_DELAY_def u)
  from retry_controller [of steady_page AutoRatingManager "\<lparr> document = (), trace = [] \<rparr>" shown "()"] v
  have 2: "clickRatingWithRetry steady_page AutoRatingManager \<lparr> document = (), trace = [] \<rparr> =
       (True, \<lparr> document = (), trace = [Attempt 0, Click, Delay 500] \<rparr>)"
    by (simp add: steady_page_def)
  from 1 2 show ?thesis by simp
qed

text \<open>
  Claim C4, as stated, fails on a page whose control is found and visible at the first
  attempt and gone once it was clicked: the check after the click fails, the controller
  makes three attempts and returns \<open>false\<close>.
\<close>

theorem retry_controller_counterexample:
  "ratingElement vanishing_page True = Some shown \<and> isVisible (Some shown)
   \<and> clickRatingWithRetry vanishing_page AutoRatingManager \<lparr> document = True, trace = [] \<rparr> =
       (False, \<lparr> document = False,
                 trace = [Attempt 0, Click, Delay 500, Delay 2000,
                          Attempt 1, Delay 2000, Attempt 2] \<rparr>)"
  by (simp add: vanishing_page_def isVisible_def shown_def ascii_def clickRatingWithRetry_def
      retry_loop.simps clickRating_def delay_def validateRatingClick_def Let_def
      AutoRatingManager_def AUTO_RATING_RETRY_DELAY_def)

section \<open>The check of the address of a new tab\<close>

text \<open>
  What the check of the address does: it looks for two texts anywhere in the address,
  and a request whose address fails it is answered with a failure and opens no tab.
\<close>

lemma isTargetDomain_includes:
  "isTargetDomain (Some u) \<longleftrightarrow>
     includes_js u (ascii ''letter.worldvision.or.kr'') \<and> includes_js u (ascii ''letterview.do'')"
proof (cases u)
  case Nil
  then show ?thesis by (simp add: isTargetDomain_def truthy_def ascii_def)
next
  case (Cons c cs)
  then show ?thesis by (simp add: isTargetDomain_def truthy_def template_str_def)
qed

lemma open_tab_rejected:
  "\<not> isTargetDomain url \<Longrightarrow>
   (\<exists>m. handleOpenInNewTab url b = (Failure m, b))"
  by (simp add: handleOpenInNewTab_def)

text \<open>
  Claim C3 on an address of the host \<open>evil.example\<close>, whose path holds the two texts
  that the check looks for: the address does not belong to the allowed domain,
  \<open>isTargetDomain\<close> accepts it, and the request is honoured, a tab is created for it and
  the response reports success.
\<close>

theorem open_tab_lookalike:
  "hostname lookalike_url = Some (ascii ''evil.example'')
   \<and> hostname lookalike_url \<noteq> Some allowed_domain
   \<and> isTargetDomain (Some lookalike_url)
   \<and> handleOpenInNewTab (Some lookalike_url) fresh_browser =
       (Success 1 (ascii ''Tab created successfully''),
        \<lparr> tabs = [(1, lookalike_url)], nextTabId = 2, createError = None \<rparr>)"
  by (simp add: hostname_def lookalike_url_def allowed_domain_def isTargetDomain_def truthy_def
      template_str_def handleOpenInNewTab_def tabs_create_def fresh_browser_def ascii_def)

end
